theory Spec2Isabelle
  imports Complex_Main "HOL-Library.Sublist"
begin

section \<open>Values of the host language\<close>

text \<open>
  The plugin is called from untyped JavaScript, and \<^verbatim>\<open>web.ts\<close> tests the run-time
  type of some of its arguments (\<^verbatim>\<open>typeof assetId !== 'string'\<close>,
  \<^verbatim>\<open>typeof options?.volume !== 'number'\<close>). Those arguments are therefore values of
  any run-time type. A number is an IEEE double as far as the code can tell the cases
  apart: not-a-number, the two infinities, or a finite value. Numbers are only compared
  here, never computed with, so a finite value is a real.
\<close>

datatype jsnum = NaN | PosInf | NegInf | Fin real

datatype jsval = JUndefined | JNull | JBool bool | JNumber jsnum | JString string

fun typeof :: "jsval \<Rightarrow> string" where
  "typeof JUndefined = ''undefined''"
| "typeof JNull = ''object''"
| "typeof (JBool b) = ''boolean''"
| "typeof (JNumber n) = ''number''"
| "typeof (JString s) = ''string''"

text \<open>\<^verbatim>\<open>Number.isNaN\<close>, \<^verbatim>\<open>Number.isFinite\<close> and the truthiness of a number.\<close>

fun Number_isNaN :: "jsnum \<Rightarrow> bool" where
  "Number_isNaN NaN = True"
| "Number_isNaN n = False"

fun Number_isFinite :: "jsnum \<Rightarrow> bool" where
  "Number_isFinite (Fin r) = True"
| "Number_isFinite n = False"

fun truthy_num :: "jsnum \<Rightarrow> bool" where
  "truthy_num NaN = False"
| "truthy_num (Fin r) = (r \<noteq> 0)"
| "truthy_num n = True"

section \<open>The backend element\<close>

text \<open>
  The backend handle is the browser's \<^verbatim>\<open>HTMLAudioElement\<close>. The record has one field
  for each property \<^verbatim>\<open>web.ts\<close> touches, the list of pending one-shot \<^verbatim>\<open>'ended'\<close>
  listeners, each represented by the asset identifier its closure captured, and the
  history of what the code has done to the element: every method call and property
  assignment the element has carried out, in order. An assignment the element refuses
  by throwing, and a \<^verbatim>\<open>play()\<close> it refuses at once, change nothing and leave no entry.
\<close>

datatype dom_error = TypeError | IndexSizeError | NotSupportedError | NotAllowedError | AbortError

datatype backend_call =
    Paused | Played
  | AutoplayAssigned bool | LoopAssigned bool | PreloadAssigned string
  | VolumeAssigned jsnum | PlaybackRateAssigned jsnum | CurrentTimeAssigned jsnum
  | EndedListenerAdded jsval

record HTMLAudioElement =
  audio_src :: string
  audio_autoplay :: bool
  audio_loop :: bool
  audio_preload :: string
  audio_volume :: jsnum
  audio_playbackRate :: jsnum
  audio_paused :: bool
  audio_currentTime :: jsnum
  audio_duration :: jsnum
  audio_ended_once :: "jsval list"
  audio_history :: "backend_call list"

text \<open>
  \<^verbatim>\<open>new Audio(src)\<close>: a paused element at position 0, volume and rate 1, no loop,
  preload hint \<^verbatim>\<open>auto\<close>, duration unknown (not-a-number) until metadata has loaded.
\<close>

definition new_Audio :: "string \<Rightarrow> HTMLAudioElement" where
  "new_Audio path =
     \<lparr> audio_src = path, audio_autoplay = False, audio_loop = False,
       audio_preload = ''auto'', audio_volume = Fin 1, audio_playbackRate = Fin 1,
       audio_paused = True, audio_currentTime = Fin 0, audio_duration = NaN,
       audio_ended_once = [], audio_history = [] \<rparr>"

text \<open>
  A statement on the element either completes or throws; \<open>Some e\<close> is the exception
  thrown, and the element comes back as the statement left it.
\<close>

type_synonym step = "dom_error option \<times> HTMLAudioElement"

definition and_then :: "step \<Rightarrow> (HTMLAudioElement \<Rightarrow> step) \<Rightarrow> step" where
  "and_then s f = (case s of (None, a) \<Rightarrow> f a | (Some e, a) \<Rightarrow> (Some e, a))"

definition did :: "backend_call \<Rightarrow> HTMLAudioElement \<Rightarrow> HTMLAudioElement" where
  "did c a = a\<lparr>audio_history := audio_history a @ [c]\<rparr>"

text \<open>\<^verbatim>\<open>audio.pause()\<close> and the assignments of the boolean and keyword properties never throw.\<close>

definition audio_pause :: "HTMLAudioElement \<Rightarrow> HTMLAudioElement" where
  "audio_pause a = did Paused (a\<lparr>audio_paused := True\<rparr>)"

definition set_autoplay :: "bool \<Rightarrow> HTMLAudioElement \<Rightarrow> HTMLAudioElement" where
  "set_autoplay b a = did (AutoplayAssigned b) (a\<lparr>audio_autoplay := b\<rparr>)"

definition set_loop :: "bool \<Rightarrow> HTMLAudioElement \<Rightarrow> HTMLAudioElement" where
  "set_loop b a = did (LoopAssigned b) (a\<lparr>audio_loop := b\<rparr>)"

definition set_preload :: "string \<Rightarrow> HTMLAudioElement \<Rightarrow> HTMLAudioElement" where
  "set_preload k a = did (PreloadAssigned k) (a\<lparr>audio_preload := k\<rparr>)"

text \<open>
  \<^verbatim>\<open>audio.volume = v\<close>: the element throws a \<^verbatim>\<open>TypeError\<close> for a value that is not
  finite and an \<^verbatim>\<open>IndexSizeError\<close> for one outside [0, 1]; the volume then stays as it
  was.
\<close>

definition set_volume :: "jsnum \<Rightarrow> HTMLAudioElement \<Rightarrow> step" where
  "set_volume v a =
     (case v of
        Fin x \<Rightarrow>
          if 0 \<le> x \<and> x \<le> 1 then (None, did (VolumeAssigned v) (a\<lparr>audio_volume := v\<rparr>))
          else (Some IndexSizeError, a)
      | _ \<Rightarrow> (Some TypeError, a))"

text \<open>
  \<^verbatim>\<open>audio.playbackRate = r\<close>: a \<^verbatim>\<open>TypeError\<close> for a value that is not finite and a
  \<^verbatim>\<open>NotSupportedError\<close> for a rate the browser does not support. Which rates are
  supported is the browser's choice; the one taken here is that of Chromium-based
  browsers: 0 and the rates from 0.0625 to 16.
\<close>

definition playbackRate_supported :: "real \<Rightarrow> bool" where
  "playbackRate_supported r = (r = 0 \<or> (1 / 16 \<le> r \<and> r \<le> 16))"

definition set_playbackRate :: "jsnum \<Rightarrow> HTMLAudioElement \<Rightarrow> step" where
  "set_playbackRate r a =
     (case r of
        Fin x \<Rightarrow>
          if playbackRate_supported x
          then (None, did (PlaybackRateAssigned r) (a\<lparr>audio_playbackRate := r\<rparr>))
          else (Some NotSupportedError, a)
      | _ \<Rightarrow> (Some TypeError, a))"

text \<open>
  \<^verbatim>\<open>audio.currentTime = t\<close>: a \<^verbatim>\<open>TypeError\<close> for a value that is not finite. Before
  metadata has loaded (duration not-a-number) the value becomes the position playback
  will start from, as it is; afterwards the element seeks, moving a position before the
  start to 0 and one after the end to the end.
\<close>

fun seek_position :: "jsnum \<Rightarrow> real \<Rightarrow> real" where
  "seek_position NaN x = x"
| "seek_position (Fin d) x = max 0 (min x d)"
| "seek_position d x = max 0 x"

fun within_media :: "jsnum \<Rightarrow> real \<Rightarrow> bool" where
  "within_media NaN x = True"
| "within_media (Fin d) x = (0 \<le> x \<and> x \<le> d)"
| "within_media d x = (0 \<le> x)"

definition set_currentTime :: "jsnum \<Rightarrow> HTMLAudioElement \<Rightarrow> step" where
  "set_currentTime t a =
     (case t of
        Fin x \<Rightarrow>
          (None,
           did (CurrentTimeAssigned t)
             (a\<lparr>audio_currentTime := Fin (seek_position (audio_duration a) x)\<rparr>))
      | _ \<Rightarrow> (Some TypeError, a))"

text \<open>
  \<^verbatim>\<open>audio.play()\<close> returns a promise whose fate is the browser's: playback starts and
  the promise resolves; or the browser refuses at once (playback not allowed, no
  supported source) and the element stays as it was; or the element is unpaused and
  the promise is rejected afterwards (the media fails to load). The answer is an input
  of every operation that calls \<^verbatim>\<open>play()\<close>.
\<close>

datatype play_answer = Resolves | RejectsAtOnce dom_error | RejectsLater dom_error

fun audio_play :: "play_answer \<Rightarrow> HTMLAudioElement \<Rightarrow> step" where
  "audio_play Resolves a = (None, did Played (a\<lparr>audio_paused := False\<rparr>))"
| "audio_play (RejectsAtOnce e) a = (Some e, a)"
| "audio_play (RejectsLater e) a = (Some e, did Played (a\<lparr>audio_paused := False\<rparr>))"

text \<open>\<^verbatim>\<open>addEventListener('ended', () => this.onEnded(assetId), { once: true })\<close>\<close>

definition addEventListener_ended :: "jsval \<Rightarrow> HTMLAudioElement \<Rightarrow> HTMLAudioElement" where
  "addEventListener_ended assetId a =
     did (EndedListenerAdded assetId) (a\<lparr>audio_ended_once := audio_ended_once a @ [assetId]\<rparr>)"

text \<open>
  Modelled from the spec: the class \<^verbatim>\<open>AudioAsset\<close> of \<^verbatim>\<open>./audio-asset\<close>, which is not
  among the sources; \<^verbatim>\<open>web.ts\<close> constructs it from an element and reads its
  \<^verbatim>\<open>audio\<close> property only. The data model pairs an asset with one exclusively owned
  backend handle.
\<close>

record AudioAsset =
  audio :: HTMLAudioElement

section \<open>The plugin state\<close>

text \<open>
  \<^verbatim>\<open>AUDIO_ASSET_BY_ASSET_ID\<close> is the static \<^verbatim>\<open>Map\<close> of the class. \<^verbatim>\<open>preload\<close> does
  not test the type of the key it stores, so keys are run-time values. Every entry owns
  an element of its own (\<^verbatim>\<open>preload\<close> creates it), so no two keys alias and writing
  through the reference obtained from the map is an update of the entry.
  \<^verbatim>\<open>notified\<close> records the calls of \<^verbatim>\<open>notifyListeners\<close> in order: event name and
  the \<^verbatim>\<open>assetId\<close> of the payload.
\<close>

record NativeAudioWeb =
  AUDIO_ASSET_BY_ASSET_ID :: "jsval \<rightharpoonup> AudioAsset"
  notified :: "(string \<times> jsval) list"

definition FILE_LOCATION :: string where
  "FILE_LOCATION = ''''"

definition initial :: NativeAudioWeb where
  "initial = \<lparr> AUDIO_ASSET_BY_ASSET_ID = Map.empty, notified = [] \<rparr>"

text \<open>
  Every \<^verbatim>\<open>throw\<close> of \<^verbatim>\<open>web.ts\<close>, named after the string it throws, and the exception
  of the element that a method lets through.
\<close>

datatype error =
    AssetIdMustBeString          \<comment> \<open>\<^verbatim>\<open>'assetId must be a string'\<close>\<close>
  | NoAssetIdProvided            \<comment> \<open>\<^verbatim>\<open>'no assetId provided'\<close>\<close>
  | NoAssetForAssetId jsval      \<comment> \<open>\<^verbatim>\<open>'no asset for assetId "..." available. Call preload first!'\<close>\<close>
  | NoDurationAvailable          \<comment> \<open>\<^verbatim>\<open>'no duration available'\<close>\<close>
  | DurationNotAvailableStreaming \<comment> \<open>\<^verbatim>\<open>'duration not available => media resource is streaming'\<close>\<close>
  | ConfigureNotSupported        \<comment> \<open>\<^verbatim>\<open>'configure is not supported for web: ...'\<close>\<close>
  | AssetIdAlreadyExists         \<comment> \<open>\<^verbatim>\<open>'AssetId already exists. Unload first if like to change!'\<close>\<close>
  | NoAssetPathProvided          \<comment> \<open>\<^verbatim>\<open>'no assetPath provided'\<close>\<close>
  | NoVolumeProvided             \<comment> \<open>\<^verbatim>\<open>'no volume provided'\<close>\<close>
  | NoRateProvided               \<comment> \<open>\<^verbatim>\<open>'no rate provided'\<close>\<close>
  | BackendError dom_error       \<comment> \<open>an exception of the element, not caught\<close>

text \<open>
  An operation returns what the promise settles to (\<open>Inl\<close> the thrown value) together
  with the state it leaves behind, so that a failed call that has already written
  something shows.
\<close>

type_synonym 'a outcome = "(error + 'a) \<times> NativeAudioWeb"

record PreloadOptions =
  assetId :: jsval
  assetPath :: "string option"
  isUrl :: bool
  volume :: "jsnum option"

section \<open>Lookup\<close>

definition checkAssetId :: "jsval \<Rightarrow> error + unit" where
  "checkAssetId aid =
     (if typeof aid \<noteq> ''string'' then Inl AssetIdMustBeString
      else if (case aid of JString s \<Rightarrow> length s = 0 | _ \<Rightarrow> True) then Inl NoAssetIdProvided
      else Inr ())"

definition getAudioAsset :: "jsval \<Rightarrow> NativeAudioWeb \<Rightarrow> error + AudioAsset" where
  "getAudioAsset aid st =
     (case checkAssetId aid of
        Inl e \<Rightarrow> Inl e
      | Inr _ \<Rightarrow>
          (case AUDIO_ASSET_BY_ASSET_ID st aid of
             None \<Rightarrow> Inl (NoAssetForAssetId aid)
           | Some asset \<Rightarrow> Inr asset))"

text \<open>
  Running statements on the element that the entry under a key refers to: the element
  is the one object, so what the statements leave is what the entry holds afterwards,
  also when they throw. A method reaches this only with the reference a successful
  lookup gave it, so an entry is there.
\<close>

definition on_audio :: "jsval \<Rightarrow> (HTMLAudioElement \<Rightarrow> step) \<Rightarrow> NativeAudioWeb \<Rightarrow> dom_error option \<times> NativeAudioWeb" where
  "on_audio aid f st =
     (case AUDIO_ASSET_BY_ASSET_ID st aid of
        None \<Rightarrow> (None, st)
      | Some asset \<Rightarrow>
          (fst (f (audio asset)),
           st\<lparr>AUDIO_ASSET_BY_ASSET_ID :=
                (AUDIO_ASSET_BY_ASSET_ID st)(aid \<mapsto> asset\<lparr>audio := snd (f (audio asset))\<rparr>)\<rparr>))"

definition settle :: "dom_error option \<times> NativeAudioWeb \<Rightarrow> unit outcome" where
  "settle r = (case r of (None, st) \<Rightarrow> (Inr (), st) | (Some e, st) \<Rightarrow> (Inl (BackendError e), st))"

section \<open>The operations of \<^verbatim>\<open>NativeAudioWeb\<close>\<close>

text \<open>
  Every method is \<^verbatim>\<open>async\<close>; a call is taken to run to its end before the next call
  or backend event, which is what a caller that awaits each promise observes.
\<close>

definition resume :: "jsval \<Rightarrow> play_answer \<Rightarrow> NativeAudioWeb \<Rightarrow> unit outcome" where
  "resume aid answer st =
     (case getAudioAsset aid st of
        Inl e \<Rightarrow> (Inl e, st)
      | Inr asset \<Rightarrow>
          if audio_paused (audio asset) then settle (on_audio aid (audio_play answer) st)
          else (Inr (), st))"

definition pause :: "jsval \<Rightarrow> NativeAudioWeb \<Rightarrow> unit outcome" where
  "pause aid st =
     (case getAudioAsset aid st of
        Inl e \<Rightarrow> (Inl e, st)
      | Inr asset \<Rightarrow> settle (on_audio aid (\<lambda>a. (None, audio_pause a)) st))"

definition setCurrentTime :: "jsval \<Rightarrow> jsnum \<Rightarrow> NativeAudioWeb \<Rightarrow> unit outcome" where
  "setCurrentTime aid time st =
     (case getAudioAsset aid st of
        Inl e \<Rightarrow> (Inl e, st)
      | Inr asset \<Rightarrow> settle (on_audio aid (set_currentTime time) st))"

definition getCurrentTime :: "jsval \<Rightarrow> NativeAudioWeb \<Rightarrow> jsnum outcome" where
  "getCurrentTime aid st =
     (case getAudioAsset aid st of
        Inl e \<Rightarrow> (Inl e, st)
      | Inr asset \<Rightarrow> (Inr (audio_currentTime (audio asset)), st))"

definition getDuration :: "jsval \<Rightarrow> NativeAudioWeb \<Rightarrow> jsnum outcome" where
  "getDuration aid st =
     (case getAudioAsset aid st of
        Inl e \<Rightarrow> (Inl e, st)
      | Inr asset \<Rightarrow>
          if Number_isNaN (audio_duration (audio asset)) then (Inl NoDurationAvailable, st)
          else if \<not> Number_isFinite (audio_duration (audio asset))
            then (Inl DurationNotAvailableStreaming, st)
          else (Inr (audio_duration (audio asset)), st))"

definition configure :: "NativeAudioWeb \<Rightarrow> unit outcome" where
  "configure st = (Inl ConfigureNotSupported, st)"

text \<open>The result is the \<^verbatim>\<open>found\<close> field; an \<^verbatim>\<open>AudioAsset\<close> object is always truthy.\<close>

definition isPreloaded :: "PreloadOptions \<Rightarrow> NativeAudioWeb \<Rightarrow> bool outcome" where
  "isPreloaded options st =
     (case getAudioAsset (assetId options) st of
        Inr asset \<Rightarrow> (Inr True, st)
      | Inl e \<Rightarrow> (Inr False, st))"

text \<open>
  \<^verbatim>\<open>new RegExp('^/?' + FILE_LOCATION).test(path)\<close>, for a \<^verbatim>\<open>FILE_LOCATION\<close> without
  regular-expression metacharacters: the path starts with the location, after an
  optional slash.
\<close>

definition test_FILE_LOCATION :: "string \<Rightarrow> bool" where
  "test_FILE_LOCATION path =
     (prefix (''/'' @ FILE_LOCATION) path \<or> prefix FILE_LOCATION path)"

definition resolve_path :: "bool \<Rightarrow> string \<Rightarrow> string" where
  "resolve_path is_url path =
     (if \<not> is_url \<and> \<not> test_FILE_LOCATION path
      then (let slashPrefix = (if prefix ''/'' path then '''' else ''/'')
            in FILE_LOCATION @ slashPrefix @ path)
      else path)"

text \<open>
  The element is registered by the last statement, so an exception of the volume
  assignment leaves the registry as it was.
\<close>

definition preload :: "PreloadOptions \<Rightarrow> NativeAudioWeb \<Rightarrow> unit outcome" where
  "preload options st =
     (if AUDIO_ASSET_BY_ASSET_ID st (assetId options) \<noteq> None then (Inl AssetIdAlreadyExists, st)
      else
        (case assetPath options of
           None \<Rightarrow> (Inl NoAssetPathProvided, st)
         | Some p \<Rightarrow>
             if length p = 0 then (Inl NoAssetPathProvided, st)
             else
               (let a0 = new_Audio (resolve_path (isUrl options) p);
                    a1 = set_preload ''auto'' (set_loop False (set_autoplay False a0))
                in case (case volume options of
                           None \<Rightarrow> (None, a1)
                         | Some v \<Rightarrow> if truthy_num v then set_volume v a1 else (None, a1)) of
                     (Some e, a2) \<Rightarrow> (Inl (BackendError e), st)
                   | (None, a2) \<Rightarrow>
                       (Inr (),
                        st\<lparr>AUDIO_ASSET_BY_ASSET_ID :=
                             (AUDIO_ASSET_BY_ASSET_ID st)(assetId options \<mapsto> \<lparr>audio = a2\<rparr>)\<rparr>))))"

definition notifyListeners :: "string \<Rightarrow> jsval \<Rightarrow> NativeAudioWeb \<Rightarrow> NativeAudioWeb" where
  "notifyListeners eventName aid st = st\<lparr>notified := notified st @ [(eventName, aid)]\<rparr>"

definition onEnded :: "jsval \<Rightarrow> NativeAudioWeb \<Rightarrow> NativeAudioWeb" where
  "onEnded aid st = notifyListeners ''complete'' aid st"

definition stop :: "jsval \<Rightarrow> NativeAudioWeb \<Rightarrow> unit outcome" where
  "stop aid st =
     (case getAudioAsset aid st of
        Inl e \<Rightarrow> (Inl e, st)
      | Inr asset \<Rightarrow>
          settle (on_audio aid (\<lambda>a. set_currentTime (Fin 0) (set_loop False (audio_pause a))) st))"

definition play :: "jsval \<Rightarrow> jsnum option \<Rightarrow> play_answer \<Rightarrow> NativeAudioWeb \<Rightarrow> unit outcome" where
  "play aid time_opt answer st =
     (let time = (case time_opt of None \<Rightarrow> Fin 0 | Some t \<Rightarrow> t) in
      case getAudioAsset aid st of
        Inl e \<Rightarrow> (Inl e, st)
      | Inr asset \<Rightarrow>
          (case stop aid st of
             (Inl e, st1) \<Rightarrow> (Inl e, st1)
           | (Inr _, st1) \<Rightarrow>
               settle
                 (on_audio aid
                    (\<lambda>a. and_then (set_currentTime time (set_loop False a))
                           (\<lambda>a. audio_play answer (addEventListener_ended aid a)))
                    st1)))"

definition loop :: "jsval \<Rightarrow> play_answer \<Rightarrow> NativeAudioWeb \<Rightarrow> unit outcome" where
  "loop aid answer st =
     (case getAudioAsset aid st of
        Inl e \<Rightarrow> (Inl e, st)
      | Inr asset \<Rightarrow>
          (case stop aid st of
             (Inl e, st1) \<Rightarrow> (Inl e, st1)
           | (Inr _, st1) \<Rightarrow>
               settle (on_audio aid (\<lambda>a. audio_play answer (set_loop True a)) st1)))"

definition unload :: "jsval \<Rightarrow> NativeAudioWeb \<Rightarrow> unit outcome" where
  "unload aid st =
     (case stop aid st of
        (Inl e, st1) \<Rightarrow> (Inl e, st1)
      | (Inr _, st1) \<Rightarrow>
          (Inr (), st1\<lparr>AUDIO_ASSET_BY_ASSET_ID := (AUDIO_ASSET_BY_ASSET_ID st1)(aid := None)\<rparr>))"

text \<open>
  \<^verbatim>\<open>typeof v !== 'number'\<close> holds of every value but a \<open>JNumber\<close>, so the test is the
  case distinction that also yields the number to assign.
\<close>

definition setVolume :: "jsval \<Rightarrow> jsval \<Rightarrow> NativeAudioWeb \<Rightarrow> unit outcome" where
  "setVolume aid vol st =
     (case vol of
        JNumber v \<Rightarrow>
          (case getAudioAsset aid st of
             Inl e \<Rightarrow> (Inl e, st)
           | Inr asset \<Rightarrow> settle (on_audio aid (set_volume v) st))
      | _ \<Rightarrow> (Inl NoVolumeProvided, st))"

definition setRate :: "jsval \<Rightarrow> jsval \<Rightarrow> NativeAudioWeb \<Rightarrow> unit outcome" where
  "setRate aid rate st =
     (case rate of
        JNumber r \<Rightarrow>
          (case getAudioAsset aid st of
             Inl e \<Rightarrow> (Inl e, st)
           | Inr asset \<Rightarrow> settle (on_audio aid (set_playbackRate r) st))
      | _ \<Rightarrow> (Inl NoRateProvided, st))"

definition isPlaying :: "jsval \<Rightarrow> NativeAudioWeb \<Rightarrow> bool outcome" where
  "isPlaying aid st =
     (case getAudioAsset aid st of
        Inl e \<Rightarrow> (Inl e, st)
      | Inr asset \<Rightarrow> (Inr (\<not> audio_paused (audio asset)), st))"

definition clearCache :: "NativeAudioWeb \<Rightarrow> unit outcome" where
  "clearCache st = (Inr (), st)"

section \<open>Events of the backend\<close>

text \<open>
  What the browser does to an element on its own, leaving no entry in the history of
  the code's calls. Metadata arrives and the duration becomes known. A playing element
  reaches the end of its media: the browser restarts it silently if \<^verbatim>\<open>loop\<close> is set;
  otherwise it pauses the element and dispatches \<^verbatim>\<open>'ended'\<close>, so that every listener
  registered on the element runs, in order of registration, and the one-shot listeners
  are removed. Each listener registered by \<^verbatim>\<open>play\<close> calls \<^verbatim>\<open>onEnded\<close> with the
  identifier it captured. An element that is paused does not reach the end.
\<close>

definition with_audio :: "jsval \<Rightarrow> (HTMLAudioElement \<Rightarrow> HTMLAudioElement) \<Rightarrow> NativeAudioWeb \<Rightarrow> NativeAudioWeb" where
  "with_audio aid f st = snd (on_audio aid (\<lambda>a. (None, f a)) st)"

definition metadata_loaded :: "jsval \<Rightarrow> jsnum \<Rightarrow> NativeAudioWeb \<Rightarrow> NativeAudioWeb" where
  "metadata_loaded aid d st = with_audio aid (\<lambda>a. a\<lparr>audio_duration := d\<rparr>) st"

definition playback_ended :: "jsval \<Rightarrow> NativeAudioWeb \<Rightarrow> NativeAudioWeb" where
  "playback_ended aid st =
     (case AUDIO_ASSET_BY_ASSET_ID st aid of
        None \<Rightarrow> st
      | Some asset \<Rightarrow>
          if audio_paused (audio asset) then st
          else if audio_loop (audio asset)
            then with_audio aid (\<lambda>a. a\<lparr>audio_currentTime := Fin 0\<rparr>) st
          else
            fold onEnded (audio_ended_once (audio asset))
              (with_audio aid
                 (\<lambda>a. a\<lparr>audio_paused := True, audio_currentTime := audio_duration a,
                         audio_ended_once := []\<rparr>)
                 st))"

section \<open>Sequences of calls\<close>

datatype call =
    Resume jsval play_answer | Pause jsval | SetCurrentTime jsval jsnum | GetCurrentTime jsval
  | GetDuration jsval | Configure | IsPreloaded PreloadOptions | Preload PreloadOptions
  | Play jsval "jsnum option" play_answer | Loop jsval play_answer | Stop jsval | Unload jsval
  | SetVolume jsval jsval | SetRate jsval jsval | IsPlaying jsval | ClearCache
  | MetadataLoaded jsval jsnum | PlaybackEnded jsval

text \<open>The state a call or event leaves behind, whether the call succeeds or throws.\<close>

fun exec :: "call \<Rightarrow> NativeAudioWeb \<Rightarrow> NativeAudioWeb" where
  "exec (Resume k w) st = snd (resume k w st)"
| "exec (Pause k) st = snd (pause k st)"
| "exec (SetCurrentTime k t) st = snd (setCurrentTime k t st)"
| "exec (GetCurrentTime k) st = snd (getCurrentTime k st)"
| "exec (GetDuration k) st = snd (getDuration k st)"
| "exec Configure st = snd (configure st)"
| "exec (IsPreloaded opts) st = snd (isPreloaded opts st)"
| "exec (Preload opts) st = snd (preload opts st)"
| "exec (Play k t w) st = snd (play k t w st)"
| "exec (Loop k w) st = snd (loop k w st)"
| "exec (Stop k) st = snd (stop k st)"
| "exec (Unload k) st = snd (unload k st)"
| "exec (SetVolume k v) st = snd (setVolume k v st)"
| "exec (SetRate k r) st = snd (setRate k r st)"
| "exec (IsPlaying k) st = snd (isPlaying k st)"
| "exec ClearCache st = snd (clearCache st)"
| "exec (MetadataLoaded k d) st = metadata_loaded k d st"
| "exec (PlaybackEnded k) st = playback_ended k st"

section \<open>A sample session\<close>

text \<open>\<^verbatim>\<open>preload({ assetId: 'a', assetPath: 'x.mp3' })\<close> on a fresh plugin.\<close>

definition sample_id :: jsval where
  "sample_id = JString ''a''"

definition sample_options :: PreloadOptions where
  "sample_options = \<lparr> assetId = sample_id, assetPath = Some ''x.mp3'', isUrl = False, volume = None \<rparr>"

definition sample_audio :: HTMLAudioElement where
  "sample_audio =
     \<lparr> audio_src = ''x.mp3'', audio_autoplay = False, audio_loop = False,
       audio_preload = ''auto'', audio_volume = Fin 1, audio_playbackRate = Fin 1,
       audio_paused = True, audio_currentTime = Fin 0, audio_duration = NaN,
       audio_ended_once = [],
       audio_history = [AutoplayAssigned False, LoopAssigned False, PreloadAssigned ''auto''] \<rparr>"

definition loaded :: "HTMLAudioElement \<Rightarrow> NativeAudioWeb" where
  "loaded a = \<lparr> AUDIO_ASSET_BY_ASSET_ID = [sample_id \<mapsto> \<lparr>audio = a\<rparr>], notified = [] \<rparr>"

section \<open>Lookup and update\<close>

lemma checkAssetId_ok_iff:
  "checkAssetId aid = Inr () \<longleftrightarrow> (\<exists>s. aid = JString s \<and> s \<noteq> [])"
  by (cases aid) (simp_all add: checkAssetId_def)

lemma getAudioAsset_absent:
  "checkAssetId aid = Inr () \<Longrightarrow> AUDIO_ASSET_BY_ASSET_ID st aid = None \<Longrightarrow>
   getAudioAsset aid st = Inl (NoAssetForAssetId aid)"
  by (simp add: getAudioAsset_def)

lemma getAudioAsset_Inr_iff:
  "getAudioAsset aid st = Inr asset \<longleftrightarrow>
   checkAssetId aid = Inr () \<and> AUDIO_ASSET_BY_ASSET_ID st aid = Some asset"
  by (auto simp: getAudioAsset_def split: sum.splits option.splits)

lemma on_audio_present:
  "AUDIO_ASSET_BY_ASSET_ID st aid = Some asset \<Longrightarrow>
   on_audio aid f st =
     (fst (f (audio asset)),
      st\<lparr>AUDIO_ASSET_BY_ASSET_ID :=
           (AUDIO_ASSET_BY_ASSET_ID st)(aid \<mapsto> asset\<lparr>audio := snd (f (audio asset))\<rparr>)\<rparr>)"
  by (simp add: on_audio_def)

lemma on_audio_dom:
  "dom (AUDIO_ASSET_BY_ASSET_ID (snd (on_audio aid f st))) = dom (AUDIO_ASSET_BY_ASSET_ID st)"
  by (auto simp: on_audio_def split: option.splits if_splits)

lemma on_audio_notified: "notified (snd (on_audio aid f st)) = notified st"
  by (simp add: on_audio_def split: option.splits)

lemma settle_snd: "snd (settle r) = snd r"
  by (cases r) (simp add: settle_def split: option.splits)

lemma with_audio_lookup:
  "AUDIO_ASSET_BY_ASSET_ID (with_audio aid f st) k =
     (if k = aid then map_option (\<lambda>asset. asset\<lparr>audio := f (audio asset)\<rparr>) (AUDIO_ASSET_BY_ASSET_ID st aid)
      else AUDIO_ASSET_BY_ASSET_ID st k)"
  by (simp add: with_audio_def on_audio_def split: option.splits)

lemma with_audio_notified: "notified (with_audio aid f st) = notified st"
  by (simp add: with_audio_def on_audio_notified)

lemma with_audio_dom: "dom (AUDIO_ASSET_BY_ASSET_ID (with_audio aid f st)) = dom (AUDIO_ASSET_BY_ASSET_ID st)"
  by (simp add: with_audio_def on_audio_dom)

lemma seek_position_start: "seek_position d 0 = 0"
  by (cases d) simp_all

lemma seek_position_within: "within_media d x \<Longrightarrow> seek_position d x = x"
  by (cases d) simp_all

lemma stop_present:
  assumes "getAudioAsset aid st = Inr asset"
  shows "stop aid st =
     (Inr (),
      st\<lparr>AUDIO_ASSET_BY_ASSET_ID := (AUDIO_ASSET_BY_ASSET_ID st)(aid \<mapsto>
           asset\<lparr>audio := (audio asset)\<lparr>audio_paused := True, audio_loop := False,
                    audio_currentTime := Fin 0,
                    audio_history := audio_history (audio asset)
                      @ [Paused, LoopAssigned False, CurrentTimeAssigned (Fin 0)]\<rparr>\<rparr>)\<rparr>)"
proof -
  from assms have present: "AUDIO_ASSET_BY_ASSET_ID st aid = Some asset"
    by (simp add: getAudioAsset_Inr_iff)
  show ?thesis
    by (simp add: stop_def assms on_audio_present [OF present] settle_def set_currentTime_def
        set_loop_def audio_pause_def did_def seek_position_start)
qed

lemma fold_onEnded_registry:
  "AUDIO_ASSET_BY_ASSET_ID (fold onEnded ks st) = AUDIO_ASSET_BY_ASSET_ID st"
  by (induction ks arbitrary: st) (simp_all add: onEnded_def notifyListeners_def)

lemma fold_onEnded_notified:
  "notified (fold onEnded ks st) = notified st @ map (Pair ''complete'') ks"
  by (induction ks arbitrary: st) (simp_all add: onEnded_def notifyListeners_def)

lemma preload_sample: "preload sample_options initial = (Inr (), loaded sample_audio)"
  by (simp add: preload_def sample_options_def initial_def loaded_def sample_audio_def
      new_Audio_def resolve_path_def test_FILE_LOCATION_def FILE_LOCATION_def
      set_preload_def set_loop_def set_autoplay_def did_def)

lemma checkAssetId_sample: "checkAssetId sample_id = Inr ()"
  by (simp add: checkAssetId_def sample_id_def)

lemma getAudioAsset_loaded: "getAudioAsset sample_id (loaded a) = Inr \<lparr>audio = a\<rparr>"
  by (simp add: getAudioAsset_def checkAssetId_sample loaded_def)

section \<open>Operations on an identifier that is not registered\<close>

text \<open>
  C1. An identifier is a non-empty text token, which is what \<open>checkAssetId\<close> accepts.
  For every identifier that has no entry in the registry, each of play, loop, pause,
  resume, stop, unload, setCurrentTime, getCurrentTime, getDuration, setVolume, setRate
  and isPlaying fails with the asset-not-found error
  (\<^verbatim>\<open>no asset for assetId "..." available. Call preload first!\<close>) and leaves the state
  as it was, whatever the backend would answer; setVolume and setRate are given a
  number, as their signatures require.
\<close>

theorem absent_identifier_AssetNotFound:
  assumes "checkAssetId aid = Inr ()"
    and "AUDIO_ASSET_BY_ASSET_ID st aid = None"
  shows "play aid t w st = (Inl (NoAssetForAssetId aid), st)
       \<and> loop aid w st = (Inl (NoAssetForAssetId aid), st)
       \<and> pause aid st = (Inl (NoAssetForAssetId aid), st)
       \<and> resume aid w st = (Inl (NoAssetForAssetId aid), st)
       \<and> stop aid st = (Inl (NoAssetForAssetId aid), st)
       \<and> unload aid st = (Inl (NoAssetForAssetId aid), st)
       \<and> setCurrentTime aid time st = (Inl (NoAssetForAssetId aid), st)
       \<and> getCurrentTime aid st = (Inl (NoAssetForAssetId aid), st)
       \<and> getDuration aid st = (Inl (NoAssetForAssetId aid), st)
       \<and> setVolume aid (JNumber v) st = (Inl (NoAssetForAssetId aid), st)
       \<and> setRate aid (JNumber r) st = (Inl (NoAssetForAssetId aid), st)
       \<and> isPlaying aid st = (Inl (NoAssetForAssetId aid), st)"
proof -
  have absent: "getAudioAsset aid st = Inl (NoAssetForAssetId aid)"
    using assms by (rule getAudioAsset_absent)
  have stopped: "stop aid st = (Inl (NoAssetForAssetId aid), st)"
    by (simp add: stop_def absent)
  show ?thesis
    by (simp add: absent stopped play_def loop_def pause_def resume_def unload_def
        setCurrentTime_def getCurrentTime_def getDuration_def setVolume_def setRate_def
        isPlaying_def)
qed

theorem absent_identifier_AssetNotFound_witness:
  "checkAssetId (JString ''b'') = Inr ()
   \<and> AUDIO_ASSET_BY_ASSET_ID (loaded sample_audio) (JString ''b'') = None
   \<and> play (JString ''b'') None Resolves (loaded sample_audio)
       = (Inl (NoAssetForAssetId (JString ''b'')), loaded sample_audio)
   \<and> unload (JString ''b'') (loaded sample_audio)
       = (Inl (NoAssetForAssetId (JString ''b'')), loaded sample_audio)
   \<and> setVolume (JString ''b'') (JNumber (Fin 2)) (loaded sample_audio)
       = (Inl (NoAssetForAssetId (JString ''b'')), loaded sample_audio)"
proof -
  have ok: "checkAssetId (JString ''b'') = Inr ()"
    by (simp add: checkAssetId_def)
  have absent: "AUDIO_ASSET_BY_ASSET_ID (loaded sample_audio) (JString ''b'') = None"
    by (simp add: loaded_def sample_id_def)
  show ?thesis
    using absent_identifier_AssetNotFound [OF ok absent, where t = None and w = Resolves and v = "Fin 2"]
      ok absent
    by simp
qed

section \<open>Stopping and restarting\<close>

text \<open>
  C7. For every registered asset, whatever its element's paused flag, loop flag and
  position are, stop(id) succeeds, the asset stays registered, and its element has been
  paused, has had the loop flag cleared and has been set to position 0, in this order
  (the idle, prepared condition); nothing else of the element, no other entry and no
  notification changes.
\<close>

theorem stop_resets_to_prepared:
  assumes "getAudioAsset aid st = Inr asset"
  shows "stop aid st =
           (Inr (),
            st\<lparr>AUDIO_ASSET_BY_ASSET_ID := (AUDIO_ASSET_BY_ASSET_ID st)(aid \<mapsto>
                 asset\<lparr>audio := (audio asset)\<lparr>audio_paused := True, audio_loop := False,
                          audio_currentTime := Fin 0,
                          audio_history := audio_history (audio asset)
                            @ [Paused, LoopAssigned False, CurrentTimeAssigned (Fin 0)]\<rparr>\<rparr>)\<rparr>)"
  using assms by (rule stop_present)

theorem stop_resets_to_prepared_witness:
  "getAudioAsset sample_id
       (loaded (sample_audio\<lparr>audio_paused := False, audio_loop := True, audio_currentTime := Fin 7\<rparr>))
     = Inr \<lparr>audio = sample_audio\<lparr>audio_paused := False, audio_loop := True, audio_currentTime := Fin 7\<rparr>\<rparr>
   \<and> stop sample_id
       (loaded (sample_audio\<lparr>audio_paused := False, audio_loop := True, audio_currentTime := Fin 7\<rparr>))
     = (Inr (),
        loaded (sample_audio\<lparr>audio_history := audio_history sample_audio
                  @ [Paused, LoopAssigned False, CurrentTimeAssigned (Fin 0)]\<rparr>))"
  using stop_resets_to_prepared [OF getAudioAsset_loaded,
      of "sample_audio\<lparr>audio_paused := False, audio_loop := True, audio_currentTime := Fin 7\<rparr>"]
    getAudioAsset_loaded
  by (simp add: loaded_def sample_audio_def)

text \<open>The statements of play that follow the stop, on the stopped element.\<close>

lemma play_after_stop:
  assumes "getAudioAsset aid st = Inr asset"
    and "(case t of None \<Rightarrow> Fin 0 | Some x \<Rightarrow> x) = Fin r"
  shows "play aid t w st =
      settle (on_audio aid
        (\<lambda>a. and_then (set_currentTime (Fin r) (set_loop False a))
               (\<lambda>a. audio_play w (addEventListener_ended aid a)))
        (snd (stop aid st)))"
  using assms(2) by (simp add: play_def assms(1) stop_present [OF assms(1)])

lemma play_resolves:
  assumes "getAudioAsset aid st = Inr asset"
    and "(case t of None \<Rightarrow> Fin 0 | Some x \<Rightarrow> x) = Fin r"
  shows "play aid t Resolves st =
           (Inr (),
            st\<lparr>AUDIO_ASSET_BY_ASSET_ID := (AUDIO_ASSET_BY_ASSET_ID st)(aid \<mapsto>
                 asset\<lparr>audio := (audio asset)\<lparr>audio_paused := False, audio_loop := False,
                          audio_currentTime := Fin (seek_position (audio_duration (audio asset)) r),
                          audio_ended_once := audio_ended_once (audio asset) @ [aid],
                          audio_history := audio_history (audio asset)
                            @ [Paused, LoopAssigned False, CurrentTimeAssigned (Fin 0),
                               LoopAssigned False, CurrentTimeAssigned (Fin r),
                               EndedListenerAdded aid, Played]\<rparr>\<rparr>)\<rparr>)"
  unfolding play_after_stop [OF assms]
  by (auto simp add: stop_present [OF assms(1)] on_audio_def settle_def and_then_def
      set_currentTime_def set_loop_def addEventListener_ended_def did_def
      intro!: NativeAudioWeb.equality AudioAsset.equality HTMLAudioElement.equality)

text \<open>A time that is not finite: the assignment throws after the stop, and nothing starts.\<close>

lemma play_time_not_finite:
  assumes "getAudioAsset aid st = Inr asset"
    and "\<not> Number_isFinite time"
  shows "play aid (Some time) w st =
           (Inl (BackendError TypeError),
            st\<lparr>AUDIO_ASSET_BY_ASSET_ID := (AUDIO_ASSET_BY_ASSET_ID st)(aid \<mapsto>
                 asset\<lparr>audio := (audio asset)\<lparr>audio_paused := True, audio_loop := False,
                          audio_currentTime := Fin 0,
                          audio_history := audio_history (audio asset)
                            @ [Paused, LoopAssigned False, CurrentTimeAssigned (Fin 0),
                               LoopAssigned False]\<rparr>\<rparr>)\<rparr>)"
  using assms(2)
  by (cases time)
     (auto simp add: play_def assms(1) stop_present [OF assms(1)] on_audio_def settle_def
        and_then_def set_currentTime_def set_loop_def did_def
        intro!: NativeAudioWeb.equality AudioAsset.equality HTMLAudioElement.equality)

text \<open>
  C3. For every registered asset, whatever its element's paused flag, loop flag and
  position are, play(id, time?) with a finite time, or none, does this in order, as the
  history of the element shows: it stops the element (pause, loop cleared, position 0);
  then it clears the loop flag, assigns the requested time, or 0 when none is given, as
  the position, registers the one-shot completion listener and calls play(). The
  position is the requested time whenever that time lies within the media. When the
  backend starts playback the call succeeds and the element is playing, not looping;
  when the backend rejects play() the call fails with that rejection, everything
  before it done.
\<close>

theorem play_stops_seeks_starts:
  assumes "getAudioAsset aid st = Inr asset"
    and "(case t of None \<Rightarrow> Fin 0 | Some x \<Rightarrow> x) = Fin r"
  shows "play aid t Resolves st =
           (Inr (),
            st\<lparr>AUDIO_ASSET_BY_ASSET_ID := (AUDIO_ASSET_BY_ASSET_ID st)(aid \<mapsto>
                 asset\<lparr>audio := (audio asset)\<lparr>audio_paused := False, audio_loop := False,
                          audio_currentTime := Fin (seek_position (audio_duration (audio asset)) r),
                          audio_ended_once := audio_ended_once (audio asset) @ [aid],
                          audio_history := audio_history (audio asset)
                            @ [Paused, LoopAssigned False, CurrentTimeAssigned (Fin 0),
                               LoopAssigned False, CurrentTimeAssigned (Fin r),
                               EndedListenerAdded aid, Played]\<rparr>\<rparr>)\<rparr>)
       \<and> (within_media (audio_duration (audio asset)) r \<longrightarrow>
            seek_position (audio_duration (audio asset)) r = r)
       \<and> play aid t (RejectsAtOnce e) st =
           (Inl (BackendError e),
            st\<lparr>AUDIO_ASSET_BY_ASSET_ID := (AUDIO_ASSET_BY_ASSET_ID st)(aid \<mapsto>
                 asset\<lparr>audio := (audio asset)\<lparr>audio_paused := True, audio_loop := False,
                          audio_currentTime := Fin (seek_position (audio_duration (audio asset)) r),
                          audio_ended_once := audio_ended_once (audio asset) @ [aid],
                          audio_history := audio_history (audio asset)
                            @ [Paused, LoopAssigned False, CurrentTimeAssigned (Fin 0),
                               LoopAssigned False, CurrentTimeAssigned (Fin r),
                               EndedListenerAdded aid]\<rparr>\<rparr>)\<rparr>)
       \<and> play aid t (RejectsLater e) st =
           (Inl (BackendError e), snd (play aid t Resolves st))"
proof -
  have rejected: "play aid t (RejectsLater e) st = (Inl (BackendError e), snd (play aid t Resolves st))"
    unfolding play_after_stop [OF assms]
    by (simp add: stop_present [OF assms(1)] on_audio_def settle_def and_then_def
        set_currentTime_def)
  have refused: "play aid t (RejectsAtOnce e) st =
           (Inl (BackendError e),
            st\<lparr>AUDIO_ASSET_BY_ASSET_ID := (AUDIO_ASSET_BY_ASSET_ID st)(aid \<mapsto>
                 asset\<lparr>audio := (audio asset)\<lparr>audio_paused := True, audio_loop := False,
                          audio_currentTime := Fin (seek_position (audio_duration (audio asset)) r),
                          audio_ended_once := audio_ended_once (audio asset) @ [aid],
                          audio_history := audio_history (audio asset)
                            @ [Paused, LoopAssigned False, CurrentTimeAssigned (Fin 0),
                               LoopAssigned False, CurrentTimeAssigned (Fin r),
                               EndedListenerAdded aid]\<rparr>\<rparr>)\<rparr>)"
    unfolding play_after_stop [OF assms]
    by (auto simp add: stop_present [OF assms(1)] on_audio_def settle_def and_then_def
        set_currentTime_def set_loop_def addEventListener_ended_def did_def
        intro!: NativeAudioWeb.equality AudioAsset.equality HTMLAudioElement.equality)
  show ?thesis
    by (intro conjI impI play_resolves [OF assms] refused rejected seek_position_within)
qed

theorem play_stops_seeks_starts_witness:
  "getAudioAsset sample_id
       (loaded (sample_audio\<lparr>audio_paused := False, audio_loop := True, audio_currentTime := Fin 7\<rparr>))
     = Inr \<lparr>audio = sample_audio\<lparr>audio_paused := False, audio_loop := True, audio_currentTime := Fin 7\<rparr>\<rparr>
   \<and> (case Some (Fin 3) of None \<Rightarrow> Fin 0 | Some x \<Rightarrow> x) = Fin 3
   \<and> within_media (audio_duration
        (sample_audio\<lparr>audio_paused := False, audio_loop := True, audio_currentTime := Fin 7\<rparr>)) 3
   \<and> play sample_id (Some (Fin 3)) Resolves
       (loaded (sample_audio\<lparr>audio_paused := False, audio_loop := True, audio_currentTime := Fin 7\<rparr>))
     = (Inr (),
        loaded (sample_audio\<lparr>audio_paused := False, audio_currentTime := Fin 3,
                  audio_ended_once := [sample_id],
                  audio_history := audio_history sample_audio
                    @ [Paused, LoopAssigned False, CurrentTimeAssigned (Fin 0),
                       LoopAssigned False, CurrentTimeAssigned (Fin 3),
                       EndedListenerAdded sample_id, Played]\<rparr>))"
proof -
  have t: "(case Some (Fin 3) of None \<Rightarrow> Fin 0 | Some x \<Rightarrow> x) = Fin 3"
    by simp
  show ?thesis
    using play_stops_seeks_starts [OF getAudioAsset_loaded t,
        of "sample_audio\<lparr>audio_paused := False, audio_loop := True, audio_currentTime := Fin 7\<rparr>",
        THEN conjunct1]
      getAudioAsset_loaded
    by (simp add: loaded_def sample_audio_def)
qed

section \<open>Duration\<close>

text \<open>
  C6. For every registered asset, getDuration fails with
  \<^verbatim>\<open>no duration available\<close> when the element's duration is not-a-number, fails with
  \<^verbatim>\<open>duration not available => media resource is streaming\<close> when it is a number but
  not finite, and otherwise succeeds with the element's finite duration; the state is
  not changed in any of the three cases.
\<close>

theorem getDuration_by_cases:
  assumes "getAudioAsset aid st = Inr asset"
  shows "getDuration aid st =
           (case audio_duration (audio asset) of
              NaN \<Rightarrow> (Inl NoDurationAvailable, st)
            | PosInf \<Rightarrow> (Inl DurationNotAvailableStreaming, st)
            | NegInf \<Rightarrow> (Inl DurationNotAvailableStreaming, st)
            | Fin d \<Rightarrow> (Inr (Fin d), st))"
  by (cases "audio_duration (audio asset)") (simp_all add: getDuration_def assms)

theorem getDuration_by_cases_witness:
  "getAudioAsset sample_id (loaded sample_audio) = Inr \<lparr>audio = sample_audio\<rparr>
   \<and> getDuration sample_id (loaded sample_audio) = (Inl NoDurationAvailable, loaded sample_audio)
   \<and> getDuration sample_id (loaded (sample_audio\<lparr>audio_duration := PosInf\<rparr>))
       = (Inl DurationNotAvailableStreaming, loaded (sample_audio\<lparr>audio_duration := PosInf\<rparr>))
   \<and> getDuration sample_id (loaded (sample_audio\<lparr>audio_duration := Fin 12\<rparr>))
       = (Inr (Fin 12), loaded (sample_audio\<lparr>audio_duration := Fin 12\<rparr>))"
  using getDuration_by_cases [OF getAudioAsset_loaded, of sample_audio]
    getDuration_by_cases [OF getAudioAsset_loaded, of "sample_audio\<lparr>audio_duration := PosInf\<rparr>"]
    getDuration_by_cases [OF getAudioAsset_loaded, of "sample_audio\<lparr>audio_duration := Fin 12\<rparr>"]
    getAudioAsset_loaded
  by (simp add: sample_audio_def)

section \<open>Registering twice\<close>

text \<open>Only \<^verbatim>\<open>unload\<close> of that very key removes an entry.\<close>

lemma stop_dom:
  "dom (AUDIO_ASSET_BY_ASSET_ID (snd (stop j st))) = dom (AUDIO_ASSET_BY_ASSET_ID st)"
  by (simp add: stop_def settle_snd on_audio_dom split: sum.splits)

lemma exec_keeps_entry:
  assumes "c \<noteq> Unload k" and "k \<in> dom (AUDIO_ASSET_BY_ASSET_ID st)"
  shows "k \<in> dom (AUDIO_ASSET_BY_ASSET_ID (exec c st))"
proof (cases c)
  case (Unload j)
  obtain r st1 where halted: "stop j st = (r, st1)" by (cases "stop j st")
  from Unload assms(1) have "j \<noteq> k" by simp
  with assms(2) stop_dom [of j st] show ?thesis
    by (cases r) (auto simp add: Unload unload_def halted)
next
  case (Preload opts)
  with assms(2) show ?thesis
    by (auto simp add: preload_def Let_def split: option.splits prod.splits)
next
  case (Play j t w)
  obtain r st1 where halted: "stop j st = (r, st1)" by (cases "stop j st")
  with assms(2) stop_dom [of j st] on_audio_dom [of j _ st1] show ?thesis
    by (cases r) (auto simp add: Play play_def Let_def settle_snd split: sum.splits)
next
  case (Loop j w)
  obtain r st1 where halted: "stop j st = (r, st1)" by (cases "stop j st")
  with assms(2) stop_dom [of j st] on_audio_dom [of j _ st1] show ?thesis
    by (cases r) (auto simp add: Loop loop_def settle_snd split: sum.splits)
next
  case (Stop j)
  with assms(2) stop_dom [of j st] show ?thesis
    by simp
next
  case (MetadataLoaded j d)
  with assms(2) show ?thesis
    by (simp add: metadata_loaded_def with_audio_dom)
next
  case (PlaybackEnded j)
  with assms(2) show ?thesis
    by (auto simp add: playback_ended_def fold_onEnded_registry with_audio_dom split: option.splits)
qed (use assms(2) in \<open>auto simp add: resume_def pause_def setCurrentTime_def getCurrentTime_def
      getDuration_def configure_def isPreloaded_def setVolume_def setRate_def isPlaying_def
      clearCache_def settle_snd on_audio_dom split: sum.splits jsval.splits\<close>)

lemma run_keeps_entry:
  "\<forall>c\<in>set cs. c \<noteq> Unload k \<Longrightarrow> k \<in> dom (AUDIO_ASSET_BY_ASSET_ID st) \<Longrightarrow>
   k \<in> dom (AUDIO_ASSET_BY_ASSET_ID (fold exec cs st))"
proof (induction cs arbitrary: st)
  case Nil
  then show ?case by simp
next
  case (Cons c cs)
  from Cons.prems have "k \<in> dom (AUDIO_ASSET_BY_ASSET_ID (exec c st))"
    by (intro exec_keeps_entry) simp_all
  with Cons.IH [of "exec c st"] Cons.prems(1) show ?case by simp
qed

lemma preload_registers:
  "fst (preload options st) = Inr () \<Longrightarrow>
   assetId options \<in> dom (AUDIO_ASSET_BY_ASSET_ID (snd (preload options st)))"
  by (auto simp add: preload_def Let_def split: if_splits option.splits prod.splits)

lemma preload_present:
  "assetId options \<in> dom (AUDIO_ASSET_BY_ASSET_ID st) \<Longrightarrow>
   preload options st = (Inl AssetIdAlreadyExists, st)"
  by (auto simp add: preload_def)

text \<open>
  C2. Once preload(id, ...) has succeeded, and whatever calls and backend events
  follow as long as none of them is unload(id), a further preload(id, ...) with any
  path and options fails with \<^verbatim>\<open>AssetId already exists. Unload first if like to change!\<close>
  and leaves the whole state, and so the asset registered under id with its element
  and settings, exactly as it was before the call.
\<close>

theorem second_preload_DuplicateAsset:
  assumes "fst (preload first st) = Inr ()"
    and "\<forall>c\<in>set cs. c \<noteq> Unload (assetId first)"
    and "assetId second = assetId first"
  shows "preload second (fold exec cs (snd (preload first st)))
           = (Inl AssetIdAlreadyExists, fold exec cs (snd (preload first st)))"
proof -
  have "assetId first \<in> dom (AUDIO_ASSET_BY_ASSET_ID (snd (preload first st)))"
    using assms(1) by (rule preload_registers)
  with assms(2) have "assetId first \<in> dom (AUDIO_ASSET_BY_ASSET_ID (fold exec cs (snd (preload first st))))"
    by (rule run_keeps_entry)
  then show ?thesis
    using assms(3) by (intro preload_present) simp
qed

theorem second_preload_DuplicateAsset_witness:
  "fst (preload sample_options initial) = Inr ()
   \<and> Unload (assetId sample_options)
       \<notin> set [Play sample_id None Resolves, Pause sample_id, SetVolume sample_id (JNumber (Fin 0))]
   \<and> preload (sample_options\<lparr>assetPath := Some ''y.mp3''\<rparr>)
       (fold exec [Play sample_id None Resolves, Pause sample_id, SetVolume sample_id (JNumber (Fin 0))]
          (snd (preload sample_options initial)))
     = (Inl AssetIdAlreadyExists,
        fold exec [Play sample_id None Resolves, Pause sample_id, SetVolume sample_id (JNumber (Fin 0))]
          (snd (preload sample_options initial)))
   \<and> map_option (\<lambda>asset. (audio_volume (audio asset), audio_paused (audio asset)))
       (AUDIO_ASSET_BY_ASSET_ID
          (fold exec [Play sample_id None Resolves, Pause sample_id, SetVolume sample_id (JNumber (Fin 0))]
             (snd (preload sample_options initial))) sample_id)
     = Some (Fin 0, True)"
proof -
  have first_ok: "fst (preload sample_options initial) = Inr ()"
    by (simp add: preload_sample)
  have no_unload: "\<forall>c\<in>set [Play sample_id None Resolves, Pause sample_id, SetVolume sample_id (JNumber (Fin 0))].
         c \<noteq> Unload (assetId sample_options)"
    by simp
  have same: "assetId (sample_options\<lparr>assetPath := Some ''y.mp3''\<rparr>) = assetId sample_options"
    by simp
  have run: "map_option (\<lambda>asset. (audio_volume (audio asset), audio_paused (audio asset)))
       (AUDIO_ASSET_BY_ASSET_ID
          (fold exec [Play sample_id None Resolves, Pause sample_id, SetVolume sample_id (JNumber (Fin 0))]
             (snd (preload sample_options initial))) sample_id)
     = Some (Fin 0, True)"
    by (simp add: preload_sample play_def stop_def pause_def setVolume_def getAudioAsset_def
        checkAssetId_def sample_id_def on_audio_def settle_def and_then_def loaded_def
        audio_pause_def addEventListener_ended_def set_loop_def set_currentTime_def
        set_volume_def did_def sample_audio_def Let_def)
  show ?thesis
    using second_preload_DuplicateAsset [OF first_ok no_unload same] first_ok run
    by simp
qed

section \<open>Unloading and loading again\<close>

text \<open>
  C8. For every registered identifier, unload(id) succeeds and removes the entry, and
  a preload(id, path) with a non-empty path that follows immediately succeeds too: it
  does not fail with the duplicate error, and the entry it registers under id is the
  fresh asset the same preload creates on a plugin that has never loaded anything. The
  volume option of that preload is absent, falsy, or a finite value in [0, 1].
\<close>

theorem unload_then_preload_succeeds:
  assumes "getAudioAsset aid st = Inr asset"
    and "assetId options = aid"
    and "assetPath options = Some p"
    and "p \<noteq> []"
    and "case volume options of
           None \<Rightarrow> True
         | Some v \<Rightarrow> \<not> truthy_num v \<or> (\<exists>x. v = Fin x \<and> 0 \<le> x \<and> x \<le> 1)"
  shows "fst (unload aid st) = Inr ()
       \<and> AUDIO_ASSET_BY_ASSET_ID (snd (unload aid st)) aid = None
       \<and> fst (preload options (snd (unload aid st))) = Inr ()
       \<and> AUDIO_ASSET_BY_ASSET_ID (snd (preload options (snd (unload aid st)))) aid
           = AUDIO_ASSET_BY_ASSET_ID (snd (preload options initial)) aid
       \<and> AUDIO_ASSET_BY_ASSET_ID (snd (preload options initial)) aid \<noteq> None"
proof -
  have unloaded: "fst (unload aid st) = Inr ()"
    and gone: "AUDIO_ASSET_BY_ASSET_ID (snd (unload aid st)) aid = None"
    by (simp_all add: unload_def stop_present [OF assms(1)])
  have fresh: "AUDIO_ASSET_BY_ASSET_ID initial aid = None"
    by (simp add: initial_def)
  show ?thesis
    using assms(2-5) gone fresh
    by (auto simp add: unloaded preload_def Let_def set_volume_def split: option.splits)
qed

theorem unload_then_preload_succeeds_witness:
  "getAudioAsset sample_id (loaded (sample_audio\<lparr>audio_paused := False, audio_currentTime := Fin 7\<rparr>))
     = Inr \<lparr>audio = sample_audio\<lparr>audio_paused := False, audio_currentTime := Fin 7\<rparr>\<rparr>
   \<and> assetId sample_options = sample_id \<and> assetPath sample_options = Some ''x.mp3'' \<and> ''x.mp3'' \<noteq> []
   \<and> volume sample_options = None
   \<and> unload sample_id (loaded (sample_audio\<lparr>audio_paused := False, audio_currentTime := Fin 7\<rparr>))
       = (Inr (), initial)
   \<and> preload sample_options
        (snd (unload sample_id (loaded (sample_audio\<lparr>audio_paused := False, audio_currentTime := Fin 7\<rparr>))))
       = (Inr (), loaded sample_audio)"
proof -
  have opts: "assetId sample_options = sample_id" "assetPath sample_options = Some ''x.mp3''" "''x.mp3'' \<noteq> []"
    by (simp_all add: sample_options_def)
  have vol: "volume sample_options = None"
    by (simp add: sample_options_def)
  then have vol_ok: "case volume sample_options of
           None \<Rightarrow> True
         | Some v \<Rightarrow> \<not> truthy_num v \<or> (\<exists>x. v = Fin x \<and> 0 \<le> x \<and> x \<le> 1)"
    by simp
  have u: "unload sample_id (loaded (sample_audio\<lparr>audio_paused := False, audio_currentTime := Fin 7\<rparr>))
       = (Inr (), initial)"
    unfolding unload_def stop_present [OF getAudioAsset_loaded]
    by (simp add: loaded_def initial_def)
  show ?thesis
    using unload_then_preload_succeeds [OF getAudioAsset_loaded opts vol_ok,
        of "sample_audio\<lparr>audio_paused := False, audio_currentTime := Fin 7\<rparr>"]
      getAudioAsset_loaded opts vol
    by (simp add: u preload_sample)
qed

section \<open>The volume option of preload\<close>

text \<open>
  C10. A preload given an explicit finite volume assigns it to the new element only
  when it is truthy. With volume 0 the assignment is skipped: the preload succeeds and
  the element keeps the default volume 1.0. A nonzero volume is assigned: within (0, 1]
  the preload succeeds with that volume; outside [0, 1] the element refuses the
  assignment, the preload fails with that exception and nothing is registered.
\<close>

theorem preload_volume_zero_keeps_default:
  assumes "AUDIO_ASSET_BY_ASSET_ID st (assetId options) = None"
    and "assetPath options = Some p"
    and "p \<noteq> []"
    and "volume options = Some (Fin v)"
  shows "(v = 0 \<longrightarrow>
            fst (preload options st) = Inr ()
          \<and> map_option (\<lambda>asset. audio_volume (audio asset))
               (AUDIO_ASSET_BY_ASSET_ID (snd (preload options st)) (assetId options))
              = Some (Fin 1))
       \<and> (0 < v \<and> v \<le> 1 \<longrightarrow>
            fst (preload options st) = Inr ()
          \<and> map_option (\<lambda>asset. audio_volume (audio asset))
               (AUDIO_ASSET_BY_ASSET_ID (snd (preload options st)) (assetId options))
              = Some (Fin v))
       \<and> (v < 0 \<or> 1 < v \<longrightarrow>
            preload options st = (Inl (BackendError IndexSizeError), st))"
  using assms
  by (simp add: preload_def Let_def new_Audio_def set_volume_def set_preload_def set_loop_def
      set_autoplay_def did_def)

theorem preload_volume_zero_keeps_default_witness:
  "AUDIO_ASSET_BY_ASSET_ID initial (assetId (sample_options\<lparr>volume := Some (Fin 0)\<rparr>)) = None
   \<and> assetPath (sample_options\<lparr>volume := Some (Fin 0)\<rparr>) = Some ''x.mp3''
   \<and> ''x.mp3'' \<noteq> []
   \<and> volume (sample_options\<lparr>volume := Some (Fin 0)\<rparr>) = Some (Fin 0)
   \<and> fst (preload (sample_options\<lparr>volume := Some (Fin 0)\<rparr>) initial) = Inr ()
   \<and> map_option (\<lambda>asset. audio_volume (audio asset))
        (AUDIO_ASSET_BY_ASSET_ID (snd (preload (sample_options\<lparr>volume := Some (Fin 0)\<rparr>) initial)) sample_id)
       = Some (Fin 1)
   \<and> preload (sample_options\<lparr>volume := Some (Fin 2)\<rparr>) initial
       = (Inl (BackendError IndexSizeError), initial)"
proof -
  have absent: "AUDIO_ASSET_BY_ASSET_ID initial (assetId (sample_options\<lparr>volume := Some (Fin z)\<rparr>)) = None"
    and path: "assetPath (sample_options\<lparr>volume := Some (Fin z)\<rparr>) = Some ''x.mp3''"
    and vol: "volume (sample_options\<lparr>volume := Some (Fin z)\<rparr>) = Some (Fin z)" for z
    by (simp_all add: initial_def sample_options_def)
  have nonempty: "''x.mp3'' \<noteq> []"
    by simp
  have k: "assetId (sample_options\<lparr>volume := Some (Fin 0)\<rparr>) = sample_id"
    by (simp add: sample_options_def)
  show ?thesis
    using preload_volume_zero_keeps_default [OF absent [of 0] path [of 0] nonempty vol [of 0]]
      preload_volume_zero_keeps_default [OF absent [of 2] path [of 2] nonempty vol [of 2]]
      absent [of 0] path [of 0] vol [of 0]
    by (simp add: k)
qed

section \<open>Volume and rate\<close>

text \<open>
  C5, as stated, does not hold: \<^verbatim>\<open>web.ts\<close> has no range check of its own, and the
  element accepts rates beyond [0.25, 4]. On a registered asset setRate with the rate
  5 does not fail; 5 becomes the element's playbackRate.
\<close>

theorem setRate_out_of_range_counterexample:
  "setRate sample_id (JNumber (Fin 5)) (loaded sample_audio)
     = (Inr (),
        loaded (sample_audio\<lparr>audio_playbackRate := Fin 5,
                  audio_history := audio_history sample_audio @ [PlaybackRateAssigned (Fin 5)]\<rparr>))"
  unfolding setRate_def
  by (simp add: getAudioAsset_loaded)
     (simp add: on_audio_def settle_def set_playbackRate_def playbackRate_supported_def did_def
        loaded_def)

text \<open>
  C5, amended. For every registered asset, setVolume with a volume outside [0, 1] fails,
  with the range error of the backend element, and setRate fails, with the element's
  not-supported error, exactly for the rates the backend does not support; a value that
  is not finite fails too. In each failure case the state, and so the stored volume and
  rate, is unchanged: the value is rejected, not clamped. The bound on the rate is the
  backend's (0 and 0.0625 to 16) and not [0.25, 4]: a supported rate such as 5 is
  accepted and stored as given, like a volume within [0, 1].
\<close>

theorem setVolume_range_setRate_support:
  assumes "getAudioAsset aid st = Inr asset"
  shows "(v < 0 \<or> 1 < v \<longrightarrow>
            setVolume aid (JNumber (Fin v)) st = (Inl (BackendError IndexSizeError), st))
       \<and> (\<not> playbackRate_supported r \<longrightarrow>
            setRate aid (JNumber (Fin r)) st = (Inl (BackendError NotSupportedError), st))
       \<and> (\<not> Number_isFinite n \<longrightarrow>
            setVolume aid (JNumber n) st = (Inl (BackendError TypeError), st)
          \<and> setRate aid (JNumber n) st = (Inl (BackendError TypeError), st))
       \<and> (0 \<le> v \<and> v \<le> 1 \<longrightarrow>
            setVolume aid (JNumber (Fin v)) st =
              (Inr (),
               st\<lparr>AUDIO_ASSET_BY_ASSET_ID := (AUDIO_ASSET_BY_ASSET_ID st)(aid \<mapsto>
                    asset\<lparr>audio := (audio asset)\<lparr>audio_volume := Fin v,
                             audio_history := audio_history (audio asset)
                               @ [VolumeAssigned (Fin v)]\<rparr>\<rparr>)\<rparr>))
       \<and> (playbackRate_supported r \<longrightarrow>
            setRate aid (JNumber (Fin r)) st =
              (Inr (),
               st\<lparr>AUDIO_ASSET_BY_ASSET_ID := (AUDIO_ASSET_BY_ASSET_ID st)(aid \<mapsto>
                    asset\<lparr>audio := (audio asset)\<lparr>audio_playbackRate := Fin r,
                             audio_history := audio_history (audio asset)
                               @ [PlaybackRateAssigned (Fin r)]\<rparr>\<rparr>)\<rparr>))
       \<and> (playbackRate_supported r \<longleftrightarrow> r = 0 \<or> (1 / 16 \<le> r \<and> r \<le> 16))"
proof -
  from assms have present: "AUDIO_ASSET_BY_ASSET_ID st aid = Some asset"
    by (simp add: getAudioAsset_Inr_iff)
  have unchanged: "st\<lparr>AUDIO_ASSET_BY_ASSET_ID := (AUDIO_ASSET_BY_ASSET_ID st)(aid \<mapsto> asset)\<rparr> = st"
    using present by (simp add: fun_upd_idem)
  have not_finite: "\<not> Number_isFinite n \<longrightarrow>
            setVolume aid (JNumber n) st = (Inl (BackendError TypeError), st)
          \<and> setRate aid (JNumber n) st = (Inl (BackendError TypeError), st)"
    by (cases n)
       (simp_all add: setVolume_def setRate_def assms on_audio_present [OF present] settle_def
          set_volume_def set_playbackRate_def unchanged)
  show ?thesis
    using not_finite
    by (simp add: setVolume_def setRate_def assms on_audio_present [OF present] settle_def
        set_volume_def set_playbackRate_def did_def unchanged playbackRate_supported_def)
qed

theorem setVolume_range_setRate_support_witness:
  "getAudioAsset sample_id (loaded sample_audio) = Inr \<lparr>audio = sample_audio\<rparr>
   \<and> setVolume sample_id (JNumber (Fin 2)) (loaded sample_audio)
       = (Inl (BackendError IndexSizeError), loaded sample_audio)
   \<and> setRate sample_id (JNumber (Fin 100)) (loaded sample_audio)
       = (Inl (BackendError NotSupportedError), loaded sample_audio)
   \<and> setVolume sample_id (JNumber NaN) (loaded sample_audio)
       = (Inl (BackendError TypeError), loaded sample_audio)
   \<and> fst (setRate sample_id (JNumber (Fin 5)) (loaded sample_audio)) = Inr ()"
  using setVolume_range_setRate_support [OF getAudioAsset_loaded [of sample_audio],
      where v = 2 and r = 100 and n = NaN]
    setVolume_range_setRate_support [OF getAudioAsset_loaded [of sample_audio],
      where v = 2 and r = 5 and n = NaN]
    getAudioAsset_loaded [of sample_audio]
  by simp

section \<open>Asking whether an asset is loaded\<close>

text \<open>
  C9, as stated, does not hold: preload does not check the identifier it registers, so
  the empty text can be registered; isPreloaded then still answers found: false,
  because the lookup it relies on rejects the empty identifier.
\<close>

theorem isPreloaded_empty_identifier_counterexample:
  "fst (preload \<lparr>assetId = JString '''', assetPath = Some ''x.mp3'', isUrl = False, volume = None\<rparr> initial)
     = Inr ()
   \<and> AUDIO_ASSET_BY_ASSET_ID
       (snd (preload \<lparr>assetId = JString '''', assetPath = Some ''x.mp3'', isUrl = False, volume = None\<rparr> initial))
       (JString '''') \<noteq> None
   \<and> fst (isPreloaded \<lparr>assetId = JString '''', assetPath = None, isUrl = False, volume = None\<rparr>
       (snd (preload \<lparr>assetId = JString '''', assetPath = Some ''x.mp3'', isUrl = False, volume = None\<rparr> initial)))
     = Inr False"
  by (simp add: preload_def initial_def isPreloaded_def getAudioAsset_def checkAssetId_def Let_def)

text \<open>
  C9, amended. For every identifier value, isPreloaded never fails and changes nothing;
  it returns found: true exactly when the value is a non-empty text (it passes
  \<open>checkAssetId\<close>) and is registered, and found: false otherwise, in particular for
  every empty or non-text value.
\<close>

theorem isPreloaded_found_iff_resolvable:
  "isPreloaded options st
     = (Inr (checkAssetId (assetId options) = Inr ()
             \<and> AUDIO_ASSET_BY_ASSET_ID st (assetId options) \<noteq> None), st)"
  by (auto simp add: isPreloaded_def getAudioAsset_def split: sum.splits option.splits)

section \<open>Completion events\<close>

text \<open>
  Looped playback: however often the looping element reaches the end of its media, no
  notification is added.
\<close>

lemma playback_ended_looping:
  assumes "\<forall>a. AUDIO_ASSET_BY_ASSET_ID s aid = Some a \<longrightarrow> audio_loop (audio a)"
  shows "notified (playback_ended aid s) = notified s
       \<and> (\<forall>a. AUDIO_ASSET_BY_ASSET_ID (playback_ended aid s) aid = Some a \<longrightarrow> audio_loop (audio a))"
  using assms
  by (auto simp add: playback_ended_def with_audio_notified with_audio_lookup split: option.splits)

lemma playback_ended_looping_funpow:
  assumes "\<forall>a. AUDIO_ASSET_BY_ASSET_ID s aid = Some a \<longrightarrow> audio_loop (audio a)"
  shows "notified ((playback_ended aid ^^ n) s) = notified s
       \<and> (\<forall>a. AUDIO_ASSET_BY_ASSET_ID ((playback_ended aid ^^ n) s) aid = Some a \<longrightarrow> audio_loop (audio a))"
proof (induction n)
  case 0
  from assms show ?case by simp
next
  case (Suc n)
  from playback_ended_looping [of "(playback_ended aid ^^ n) s" aid] Suc
  show ?case by simp
qed

lemma loop_emits_no_complete:
  assumes "getAudioAsset aid st = Inr asset"
  shows "notified ((playback_ended aid ^^ n) (snd (loop aid w st))) = notified st"
proof -
  let ?go = "\<lambda>a. audio_play w (set_loop True a)"
  have looped: "snd (loop aid w st) = snd (on_audio aid ?go (snd (stop aid st)))"
    by (simp add: loop_def assms stop_present [OF assms] settle_snd)
  have flag: "audio_loop (snd (audio_play w (set_loop True a)))" for a
    by (cases w) (simp_all add: set_loop_def did_def)
  have "\<forall>a. AUDIO_ASSET_BY_ASSET_ID (snd (on_audio aid ?go (snd (stop aid st)))) aid = Some a
          \<longrightarrow> audio_loop (audio a)"
    by (auto simp add: on_audio_def flag split: option.splits)
  from playback_ended_looping_funpow [OF this, of n] show ?thesis
    by (simp add: looped on_audio_notified stop_present [OF assms])
qed

text \<open>
  C4. The complete event should be emitted once for a natural completion, after any
  sequence of play calls. Each play registers a further one-shot listener and neither
  play nor stop removes the pending one, so after preload, play, play, both started by
  the backend, a single natural completion notifies \<^verbatim>\<open>complete\<close> twice.
\<close>

theorem play_twice_completes_twice:
  "notified
     (playback_ended sample_id
        (snd (play sample_id None Resolves
           (snd (play sample_id None Resolves
              (snd (preload sample_options initial)))))))
   = [(''complete'', sample_id), (''complete'', sample_id)]"
proof -
  have t: "(case None of None \<Rightarrow> Fin 0 | Some x \<Rightarrow> x) = Fin 0"
    by simp
  obtain a1 where one: "snd (play sample_id None Resolves (loaded sample_audio)) = loaded a1"
    and l1: "audio_ended_once a1 = [sample_id]"
    using play_resolves [OF getAudioAsset_loaded t, of sample_audio]
    by (simp add: loaded_def sample_audio_def)
  obtain a2 where two: "snd (play sample_id None Resolves (loaded a1)) = loaded a2"
    and l2: "audio_ended_once a2 = [sample_id, sample_id]"
    and p2: "\<not> audio_paused a2" "\<not> audio_loop a2"
    using play_resolves [OF getAudioAsset_loaded t, of a1] l1
    by (simp add: loaded_def)
  have fin: "notified (playback_ended sample_id (loaded a2))
     = [(''complete'', sample_id), (''complete'', sample_id)]"
    using l2 p2
    by (simp add: playback_ended_def loaded_def onEnded_def notifyListeners_def
        with_audio_notified)
  show ?thesis
    by (simp only: preload_sample snd_conv one two fin)
qed

end
